theory Spec2Isabelle
  imports Complex_Main "HOL-Library.Multiset"
begin

section \<open>Header normalisation\<close>

text \<open>
  Every workflow rewrites the headers of the master sheet right after loading it.
  Three of them (\<^verbatim>\<open>multi_student_analyzer.py\<close> line 37,
  \<^verbatim>\<open>verify_choice_filling_structured.py\<close> line 43, \<^verbatim>\<open>smart_insights.py\<close> line 44) run
  \<^verbatim>\<open>columns.str.strip().str.upper().str.replace(' ', '_')\<close>; the fourth
  (\<^verbatim>\<open>verify_choice_filling.py\<close> line 40) runs \<^verbatim>\<open>columns.str.strip().str.upper()\<close>.
  Headers are modelled as ASCII strings: \<open>isspace\<close> holds of the ASCII white space Python's
  \<^verbatim>\<open>str.strip\<close> removes, and \<open>upper\<close> maps the letters a to z.
\<close>

definition isspace :: "char \<Rightarrow> bool" where
  "isspace c = (c \<in> set [CHR 0x09, CHR 0x0A, CHR 0x0B, CHR 0x0C, CHR 0x0D,
                            CHR 0x1C, CHR 0x1D, CHR 0x1E, CHR 0x1F, CHR '' ''])"

definition strip :: "string \<Rightarrow> string" where
  "strip s = rev (dropWhile isspace (rev (dropWhile isspace s)))"

definition upper_char :: "char \<Rightarrow> char" where
  "upper_char c =
     (case map_of (zip ''abcdefghijklmnopqrstuvwxyz'' ''ABCDEFGHIJKLMNOPQRSTUVWXYZ'') c of
        Some u \<Rightarrow> u
      | None \<Rightarrow> c)"

definition upper :: "string \<Rightarrow> string" where
  "upper s = map upper_char s"

definition replace_space_underscore :: "string \<Rightarrow> string" where
  "replace_space_underscore s = map (\<lambda>c. if c = CHR '' '' then CHR ''_'' else c) s"

definition multi_student_analyzer_columns :: "string list \<Rightarrow> string list" where
  "multi_student_analyzer_columns headers =
     map (\<lambda>h. replace_space_underscore (upper (strip h))) headers"

definition verify_choice_filling_dashboard_columns :: "string list \<Rightarrow> string list" where
  "verify_choice_filling_dashboard_columns headers =
     map (\<lambda>h. replace_space_underscore (upper (strip h))) headers"

definition smart_insights_columns :: "string list \<Rightarrow> string list" where
  "smart_insights_columns headers =
     map (\<lambda>h. replace_space_underscore (upper (strip h))) headers"

definition verify_choice_filling_columns :: "string list \<Rightarrow> string list" where
  "verify_choice_filling_columns headers = map (\<lambda>h. upper (strip h)) headers"

section \<open>Numeric cells\<close>

text \<open>
  \<^verbatim>\<open>pd.to_numeric(column, errors='coerce')\<close> turns a column of text cells into float64:
  a cell is then NaN or a number. NaN is the value \<open>None\<close> of \<open>number option\<close>. The engine
  never does arithmetic on a number: it compares two of them, takes a minimum and truncates
  one with \<^verbatim>\<open>int()\<close>. A finite float is therefore modelled by the rational it denotes, and
  the two infinities (which \<^verbatim>\<open>pd.to_numeric\<close> reads from the cells \<^verbatim>\<open>inf\<close> and \<^verbatim>\<open>-inf\<close>) are
  kept, because \<^verbatim>\<open>int()\<close> raises on them. Rounding of integers beyond 2^53 is outside the
  model.
\<close>

datatype number = NegInf | Finite rat | PosInf

instantiation number :: linorder
begin

fun less_eq_number :: "number \<Rightarrow> number \<Rightarrow> bool" where
  "less_eq_number NegInf _ = True"
| "less_eq_number (Finite a) NegInf = False"
| "less_eq_number (Finite a) (Finite b) = (a \<le> b)"
| "less_eq_number (Finite a) PosInf = True"
| "less_eq_number PosInf PosInf = True"
| "less_eq_number PosInf _ = False"

definition less_number :: "number \<Rightarrow> number \<Rightarrow> bool" where
  "less_number a b = (a \<le> b \<and> \<not> b \<le> a)"

instance
proof
  fix x y z :: number
  show "(x < y) = (x \<le> y \<and> \<not> y \<le> x)"
    by (simp add: less_number_def)
  show "x \<le> x"
    by (cases x) simp_all
  show "x \<le> y \<Longrightarrow> y \<le> z \<Longrightarrow> x \<le> z"
    by (cases x; cases y; cases z) simp_all
  show "x \<le> y \<Longrightarrow> y \<le> x \<Longrightarrow> x = y"
    by (cases x; cases y) simp_all
  show "x \<le> y \<or> y \<le> x"
    by (cases x; cases y) auto
qed

end

datatype py_error = OverflowError | AttributeError

text \<open>
  \<^verbatim>\<open>int(x)\<close> truncates a finite float towards zero and raises \<^verbatim>\<open>OverflowError\<close> on an
  infinity.
\<close>

definition py_int :: "number \<Rightarrow> py_error + int" where
  "py_int x =
     (case x of
        Finite q \<Rightarrow> Inr (if 0 \<le> q then \<lfloor>q\<rfloor> else \<lceil>q\<rceil>)
      | NegInf \<Rightarrow> Inl OverflowError
      | PosInf \<Rightarrow> Inl OverflowError)"

text \<open>The decimal text of a Python integer, as an f-string prints it.\<close>

definition digit_char :: "nat \<Rightarrow> char" where
  "digit_char d = ''0123456789'' ! d"

fun digits :: "nat \<Rightarrow> string" where
  "digits n = (if n < 10 then [digit_char n] else digits (n div 10) @ [digit_char (n mod 10)])"

declare digits.simps [simp del]

definition str_int :: "int \<Rightarrow> string" where
  "str_int i = (if i < 0 then CHR ''-'' # digits (nat (- i)) else digits (nat i))"

text \<open>
  \<^verbatim>\<open>min(values)\<close> on a non-empty list: Python keeps the first item and replaces it by a
  later one only when that one is strictly smaller.
\<close>

definition py_min :: "number \<Rightarrow> number list \<Rightarrow> number" where
  "py_min v vs = foldl (\<lambda>m x. if x < m then x else m) v vs"

section \<open>The loaded tables\<close>

text \<open>
  Both sheets are read with \<^verbatim>\<open>dtype=str\<close>, so a cell of a text column is a string or NaN
  (\<open>None\<close>). A row is modelled after preprocessing, by the normalised labels of its columns,
  which are taken to be pairwise distinct. The four rank columns of the student sheet
  (lines 94 to 96) and every one of the ten cutoff columns that the master sheet has
  (lines 54 to 56) have been through \<^verbatim>\<open>pd.to_numeric\<close>. \<open>cutoffs opt col\<close> is the cell of the
  master row \<open>opt\<close> in the cutoff column \<open>col\<close>; it is read only for labels in \<open>columns\<close>.
\<close>

record student_row =
  NAME :: "string option"
  STUDENT_ID :: "string option"
  GENDER :: "string option"
  CATEGORY :: "string option"
  JEE_ADVACED_CRL_RANK :: "number option"
  JEE_ADVNCED_CATEGORY_RANK :: "number option"
  JEE_MAIN_CRL_RANK :: "number option"
  JEE_MAIN_CATEGORY_RANK :: "number option"

record college_option =
  TYPE_cell :: "string option"
  COLLEGE_CODE :: "string option"
  COURSE_CODE :: "string option"
  PROGRAM :: "string option"
  cutoffs :: "string \<Rightarrow> number option"

record master_df =
  columns :: "string list"
  options :: "college_option list"

text \<open>
  The four texts of the column \<^verbatim>\<open>Seat_Chance\<close>: \<open>LIKELY\<close> and \<open>UNLIKELY\<close> (each after its
  check or cross sign), \<open>NO_CUTOFF\<close> for \<^verbatim>\<open>N/A - No Cutoff\<close> and \<open>RANK_MISSING\<close> for
  \<^verbatim>\<open>N/A - Student Rank Missing\<close>.
\<close>

datatype seat_chance = LIKELY | UNLIKELY | NO_CUTOFF | RANK_MISSING

record result_row =
  Student_ID :: "string option"
  Student_Name :: "string option"
  Student_Category :: "string option"
  Student_Gender :: "string option"
  College_Type :: "string option"
  College_Code :: "string option"
  Program_Name :: "string option"
  Course_Code :: "string option"
  Student_Rank_Used :: string
  Rank_Type :: string
  Best_Eligible_Cutoff :: string
  Considered_Cutoffs_for_Option :: string
  Seat_Chance :: seat_chance

section \<open>The cutoff resolver\<close>

definition all_cutoff_cols :: "string list" where
  "all_cutoff_cols =
     [''OC_FEM'', ''OC_GEN'', ''EWS_FEM'', ''EWS_GEN'', ''OBC_FEM'', ''OBC_GEN'',
      ''SC_FEM'', ''SC_GEN'', ''ST_FEM'', ''ST_GEN'']"

definition category_to_cutoff_map :: "(string \<times> (string \<times> string) list) list" where
  "category_to_cutoff_map =
     [(''OC'', [(''FEM'', ''OC_FEM''), (''GEN'', ''OC_GEN'')]),
      (''EWS'', [(''FEM'', ''EWS_FEM''), (''GEN'', ''EWS_GEN'')]),
      (''OBC'', [(''FEM'', ''OBC_FEM''), (''GEN'', ''OBC_GEN'')]),
      (''SC'', [(''FEM'', ''SC_FEM''), (''GEN'', ''SC_GEN'')]),
      (''ST'', [(''FEM'', ''ST_FEM''), (''GEN'', ''ST_GEN'')])]"

text \<open>
  \<^verbatim>\<open>if label in columns: cols.append(label)\<close>, where \<open>label\<close> is the result of a
  \<^verbatim>\<open>dict.get\<close>.
\<close>

definition append_if_present :: "string list \<Rightarrow> string option \<Rightarrow> string list \<Rightarrow> string list" where
  "append_if_present cols label acc =
     (case label of
        None \<Rightarrow> acc
      | Some l \<Rightarrow> if l \<in> set cols then acc @ [l] else acc)"

text \<open>
  Lines 141 to 165. The last line is \<^verbatim>\<open>list(set([...]))\<close>: the order in which Python
  iterates over a set of strings depends on their hashes, which are salted anew for every
  interpreter process. \<open>set_order\<close> is that conversion, a parameter of the model;
  \<open>set_iteration\<close> says what every such conversion satisfies.
\<close>

definition set_iteration :: "(string list \<Rightarrow> string list) \<Rightarrow> bool" where
  "set_iteration set_order = (\<forall>xs. distinct (set_order xs) \<and> set (set_order xs) = set xs)"

definition current_student_eligible_cutoff_cols ::
  "(string list \<Rightarrow> string list) \<Rightarrow> string list \<Rightarrow> string option \<Rightarrow> string option \<Rightarrow> string list" where
  "current_student_eligible_cutoff_cols set_order cols student_category student_gender =
     (let appended =
        (case student_category of
           None \<Rightarrow> []
         | Some category \<Rightarrow>
             (case map_of category_to_cutoff_map category of
                None \<Rightarrow> []
              | Some category_map \<Rightarrow>
                  (let own =
                     (if category_map \<noteq> [] then
                        (if student_gender = Some ''FEM'' then
                           append_if_present cols (map_of category_map ''GEN'')
                             (append_if_present cols (map_of category_map ''FEM'') [])
                         else append_if_present cols (map_of category_map ''GEN'') [])
                      else [])
                   in if category \<noteq> ''OC'' then
                        (if student_gender = Some ''FEM'' then
                           append_if_present cols (Some ''OC_FEM'')
                             (append_if_present cols (Some ''OC_GEN'') own)
                         else append_if_present cols (Some ''OC_GEN'') own)
                      else own)))
      in set_order (filter (\<lambda>col. col \<in> set cols) appended))"

section \<open>One student against one option\<close>

text \<open>Lines 131 to 139: the open rank for the category OC, the category rank otherwise.\<close>

definition current_student_adv_rank :: "student_row \<Rightarrow> number option" where
  "current_student_adv_rank student_row =
     (if CATEGORY student_row = Some ''OC'' then JEE_ADVACED_CRL_RANK student_row
      else JEE_ADVNCED_CATEGORY_RANK student_row)"

definition current_student_mains_rank :: "student_row \<Rightarrow> number option" where
  "current_student_mains_rank student_row =
     (if CATEGORY student_row = Some ''OC'' then JEE_MAIN_CRL_RANK student_row
      else JEE_MAIN_CATEGORY_RANK student_row)"

text \<open>
  Lines 173 to 183: the rank and its label by institute type; \<open>None\<close> is the \<^verbatim>\<open>continue\<close>
  of every other type.
\<close>

definition applicable_student_rank :: "student_row \<Rightarrow> college_option \<Rightarrow> (number option \<times> string) option" where
  "applicable_student_rank student_row college_option =
     (if TYPE_cell college_option = Some ''IIT'' then
        Some (current_student_adv_rank student_row, ''JEE Advanced Rank'')
      else if TYPE_cell college_option \<in> set [Some ''NIT'', Some ''IIIT'', Some ''GFTI''] then
        Some (current_student_mains_rank student_row, ''JEE Mains Rank'')
      else None)"

text \<open>Lines 189 to 193: the present cutoffs of the option in the eligible columns.\<close>

definition option_cutoffs_values :: "string list \<Rightarrow> string list \<Rightarrow> college_option \<Rightarrow> number list" where
  "option_cutoffs_values cols eligible college_option =
     List.map_filter (\<lambda>col. if col \<in> set cols then cutoffs college_option col else None) eligible"

text \<open>Lines 185 to 199, without the display list.\<close>

definition best_eligible_cutoff_for_option ::
  "string list \<Rightarrow> string list \<Rightarrow> number option \<Rightarrow> college_option \<Rightarrow> number option" where
  "best_eligible_cutoff_for_option cols eligible rank college_option =
     (case rank of
        None \<Rightarrow> None
      | Some r \<Rightarrow>
          (case option_cutoffs_values cols eligible college_option of
             [] \<Rightarrow> None
           | v # vs \<Rightarrow> Some (py_min v vs)))"

text \<open>
  Line 197: one entry \<^verbatim>\<open>f"{col}: {int(value)}"\<close> for each present cutoff, in the order of the
  eligible columns; the first \<^verbatim>\<open>int()\<close> that raises ends the comprehension.
\<close>

fun display_entries :: "string list \<Rightarrow> string list \<Rightarrow> college_option \<Rightarrow> py_error + string list" where
  "display_entries cols [] college_option = Inr []"
| "display_entries cols (col # rest) college_option =
     (if col \<in> set cols then
        (case cutoffs college_option col of
           None \<Rightarrow> display_entries cols rest college_option
         | Some v \<Rightarrow>
             (case py_int v of
                Inl e \<Rightarrow> Inl e
              | Inr i \<Rightarrow>
                  (case display_entries cols rest college_option of
                     Inl e \<Rightarrow> Inl e
                   | Inr entries \<Rightarrow> Inr ((col @ '': '' @ str_int i) # entries))))
      else display_entries cols rest college_option)"

definition relevant_cutoffs_for_option_display ::
  "string list \<Rightarrow> string list \<Rightarrow> number option \<Rightarrow> college_option \<Rightarrow> py_error + string list" where
  "relevant_cutoffs_for_option_display cols eligible rank college_option =
     (case rank of
        None \<Rightarrow> Inr []
      | Some r \<Rightarrow>
          (case option_cutoffs_values cols eligible college_option of
             [] \<Rightarrow> Inr []
           | v # vs \<Rightarrow> display_entries cols eligible college_option))"

text \<open>
  Lines 201 to 208. When the best cutoff is present and the rank is NaN (which line 188
  excludes), the comparison \<^verbatim>\<open><=\<close> with NaN is false.
\<close>

definition seat_chance_of :: "number option \<Rightarrow> number option \<Rightarrow> seat_chance" where
  "seat_chance_of rank best =
     (case best of
        Some b \<Rightarrow>
          (case rank of
             Some r \<Rightarrow> if r \<le> b then LIKELY else UNLIKELY
           | None \<Rightarrow> UNLIKELY)
      | None \<Rightarrow>
          (case rank of
             None \<Rightarrow> RANK_MISSING
           | Some r \<Rightarrow> NO_CUTOFF))"

text \<open>\<^verbatim>\<open>f"{int(x)}" if pd.notna(x) else "N/A"\<close>, lines 219 and 221.\<close>

definition int_or_na :: "number option \<Rightarrow> py_error + string" where
  "int_or_na x =
     (case x of
        None \<Rightarrow> Inr ''N/A''
      | Some v \<Rightarrow> (case py_int v of Inl e \<Rightarrow> Inl e | Inr i \<Rightarrow> Inr (str_int i)))"

fun join :: "string \<Rightarrow> string list \<Rightarrow> string" where
  "join sep [] = []"
| "join sep [x] = x"
| "join sep (x # y # ys) = x @ sep @ join sep (y # ys)"

text \<open>
  The body of the inner loop, lines 168 to 224: \<open>Inr None\<close> when the option is skipped,
  \<open>Inr (Some row)\<close> when a row is appended, \<open>Inl e\<close> when the body raises.
\<close>

definition evaluate_pair ::
  "string list \<Rightarrow> string list \<Rightarrow> student_row \<Rightarrow> college_option \<Rightarrow> py_error + result_row option" where
  "evaluate_pair cols eligible student_row college_option =
     (case applicable_student_rank student_row college_option of
        None \<Rightarrow> Inr None
      | Some (rank, rank_type_used) \<Rightarrow>
          (let best = best_eligible_cutoff_for_option cols eligible rank college_option in
           case relevant_cutoffs_for_option_display cols eligible rank college_option of
             Inl e \<Rightarrow> Inl e
           | Inr display \<Rightarrow>
               (case int_or_na rank of
                  Inl e \<Rightarrow> Inl e
                | Inr rank_text \<Rightarrow>
                    (case int_or_na best of
                       Inl e \<Rightarrow> Inl e
                     | Inr best_text \<Rightarrow>
                         Inr (Some \<lparr>
                           Student_ID = STUDENT_ID student_row,
                           Student_Name = NAME student_row,
                           Student_Category = CATEGORY student_row,
                           Student_Gender = GENDER student_row,
                           College_Type = TYPE_cell college_option,
                           College_Code = COLLEGE_CODE college_option,
                           Program_Name =
                             (if ''PROGRAM'' \<in> set cols then PROGRAM college_option else Some ''N/A''),
                           Course_Code = COURSE_CODE college_option,
                           Student_Rank_Used = rank_text,
                           Rank_Type = rank_type_used,
                           Best_Eligible_Cutoff = best_text,
                           Considered_Cutoffs_for_Option = join '', '' display,
                           Seat_Chance = seat_chance_of rank best\<rparr>)))))"

section \<open>The batch\<close>

text \<open>
  The inner loop (line 167) over the rows of the master sheet and the outer loop
  (line 123) over the students, both appending to \<open>results_list\<close>. An exception leaves
  the loops at once.
\<close>

fun options_loop ::
  "string list \<Rightarrow> string list \<Rightarrow> student_row \<Rightarrow> college_option list \<Rightarrow> result_row list
     \<Rightarrow> py_error + result_row list" where
  "options_loop cols eligible student_row [] results_list = Inr results_list"
| "options_loop cols eligible student_row (college_option # rest) results_list =
     (case evaluate_pair cols eligible student_row college_option of
        Inl e \<Rightarrow> Inl e
      | Inr None \<Rightarrow> options_loop cols eligible student_row rest results_list
      | Inr (Some row) \<Rightarrow> options_loop cols eligible student_row rest (results_list @ [row]))"

fun students_loop ::
  "(string list \<Rightarrow> string list) \<Rightarrow> master_df \<Rightarrow> student_row list \<Rightarrow> result_row list
     \<Rightarrow> py_error + result_row list" where
  "students_loop set_order processed_master_df [] results_list = Inr results_list"
| "students_loop set_order processed_master_df (student_row # rest) results_list =
     (let eligible =
        current_student_eligible_cutoff_cols set_order (columns processed_master_df)
          (CATEGORY student_row) (GENDER student_row)
      in case options_loop (columns processed_master_df) eligible student_row
                (options processed_master_df) results_list of
           Inl e \<Rightarrow> Inl e
         | Inr results_list' \<Rightarrow> students_loop set_order processed_master_df rest results_list')"

definition run_seat_chance_analysis ::
  "(string list \<Rightarrow> string list) \<Rightarrow> master_df \<Rightarrow> student_row list \<Rightarrow> py_error + result_row list" where
  "run_seat_chance_analysis set_order processed_master_df student_batch_df =
     students_loop set_order processed_master_df student_batch_df []"

text \<open>
  A result row without its audit text, for comparing two runs on everything else.
\<close>

definition audit_erased :: "result_row \<Rightarrow> result_row" where
  "audit_erased row = row\<lparr>Considered_Cutoffs_for_Option := []\<rparr>"

section \<open>The page: preconditions, the run and the session\<close>

text \<open>
  \<^verbatim>\<open>display_multi_student_analyzer\<close> runs once per user action. What it reads from outside
  is \<open>page_inputs\<close>: whether the master file exists, what loading and preprocessing each
  sheet gave (\<open>Raises\<close> is any exception inside the \<^verbatim>\<open>try\<close> block, caught by its
  \<^verbatim>\<open>except\<close>), whether a batch file is uploaded and whether the button was pressed. The
  slot \<^verbatim>\<open>st.session_state["analysis_results_df"]\<close> is absent, \<^verbatim>\<open>None\<close> or a table of rows.
\<close>

datatype 'a load = Raises | Loaded 'a

datatype 'a session_slot = Missing | PyNone | Stored 'a

record master_sheet =
  master_headers :: "string list"
  master_options :: "college_option list"

record student_sheet =
  student_headers :: "string list"
  student_rows :: "student_row list"

record page_inputs =
  master_exists :: bool
  master_load :: "master_sheet load"
  student_batch_file :: "student_sheet load option"
  run_button :: bool

datatype message =
    Error_master_not_found
  | Error_master_missing_columns
  | Info_detected_master_columns "string list"
  | Error_master_loading
  | Info_upload_batch
  | Error_batch_missing_columns
  | Info_detected_batch_columns "string list"
  | Error_batch_loading
  | Success_loaded nat nat
  | Results_shown "result_row list"
  | Info_click_run

record page_outcome =
  messages :: "message list"
  session :: "result_row list session_slot"
  raised :: "py_error option"

definition required_master_cols :: "string list" where
  "required_master_cols = [''COLLEGE_CODE'', ''COURSE_CODE'', ''TYPE'']"

definition required_student_cols :: "string list" where
  "required_student_cols =
     [''NAME'', ''STUDENT_ID'', ''GENDER'', ''CATEGORY'',
      ''JEE_ADVACED_CRL_RANK'', ''JEE_ADVNCED_CATEGORY_RANK'',
      ''JEE_MAIN_CRL_RANK'', ''JEE_MAIN_CATEGORY_RANK'']"

text \<open>Line 47: the join key of a master row; NaN when either code is NaN.\<close>

definition Main_Code_of :: "college_option \<Rightarrow> string option" where
  "Main_Code_of college_option =
     (case (COLLEGE_CODE college_option, COURSE_CODE college_option) of
        (Some college, Some course) \<Rightarrow> Some (strip college @ ''_'' @ strip course)
      | _ \<Rightarrow> None)"

text \<open>Lines 37 to 58: the normalised headers, and the new column \<^verbatim>\<open>Main_Code\<close>.\<close>

definition processed_master_df :: "master_sheet \<Rightarrow> master_df" where
  "processed_master_df sheet =
     \<lparr>columns = multi_student_analyzer_columns (master_headers sheet) @ [''Main_Code''],
      options = master_options sheet\<rparr>"

text \<open>Lines 233 to 249: what the page shows of the slot. \<^verbatim>\<open>None.empty\<close> raises.\<close>

definition display_results :: "message list \<Rightarrow> result_row list session_slot \<Rightarrow> page_outcome" where
  "display_results shown slot =
     (case slot of
        Missing \<Rightarrow> \<lparr>messages = shown @ [Info_click_run], session = slot, raised = None\<rparr>
      | PyNone \<Rightarrow> \<lparr>messages = shown, session = slot, raised = Some AttributeError\<rparr>
      | Stored rows \<Rightarrow>
          (if rows \<noteq> [] then \<lparr>messages = shown @ [Results_shown rows], session = slot, raised = None\<rparr>
           else \<lparr>messages = shown, session = slot, raised = None\<rparr>))"

text \<open>
  Lines 15 to 249. Every early \<^verbatim>\<open>return\<close> is preceded by
  \<^verbatim>\<open>del st.session_state["analysis_results_df"]\<close> when the key is there, so it leaves the
  slot \<open>Missing\<close>.
\<close>

definition display_multi_student_analyzer ::
  "(string list \<Rightarrow> string list) \<Rightarrow> page_inputs \<Rightarrow> result_row list session_slot \<Rightarrow> page_outcome" where
  "display_multi_student_analyzer set_order inputs slot =
     (if \<not> master_exists inputs then
        \<lparr>messages = [Error_master_not_found], session = Missing, raised = None\<rparr>
      else
        (case master_load inputs of
           Raises \<Rightarrow> \<lparr>messages = [Error_master_loading], session = Missing, raised = None\<rparr>
         | Loaded master \<Rightarrow>
             (if \<not> list_all (\<lambda>col. col \<in> set (multi_student_analyzer_columns (master_headers master)))
                     required_master_cols then
                \<lparr>messages = [Error_master_missing_columns,
                              Info_detected_master_columns
                                (multi_student_analyzer_columns (master_headers master))],
                 session = Missing, raised = None\<rparr>
              else
                (case student_batch_file inputs of
                   None \<Rightarrow> \<lparr>messages = [Info_upload_batch], session = Missing, raised = None\<rparr>
                 | Some Raises \<Rightarrow>
                     \<lparr>messages = [Error_batch_loading], session = Missing, raised = None\<rparr>
                 | Some (Loaded batch) \<Rightarrow>
                     (if \<not> list_all
                            (\<lambda>col. col \<in> set (multi_student_analyzer_columns (student_headers batch)))
                            required_student_cols then
                        \<lparr>messages = [Error_batch_missing_columns,
                                      Info_detected_batch_columns
                                        (multi_student_analyzer_columns (student_headers batch))],
                         session = Missing, raised = None\<rparr>
                      else
                        (let shown = [Success_loaded (length (student_rows batch))
                                        (length (master_options master))]
                         in if run_button inputs then
                              (case run_seat_chance_analysis set_order (processed_master_df master)
                                      (student_rows batch) of
                                 Inl e \<Rightarrow> \<lparr>messages = shown, session = PyNone, raised = Some e\<rparr>
                               | Inr results_list \<Rightarrow> display_results shown (Stored results_list))
                            else display_results shown slot))))))"


section \<open>The dashboard's validation tab\<close>

text \<open>
  \<^verbatim>\<open>display_validation\<close> of \<^verbatim>\<open>verify_choice_filling_structured.py\<close>, lines 356 to 372: three
  tables, each shown when it has a row and replaced by a success note otherwise. A row of
  either sheet is its join key and its other cells; \<^verbatim>\<open>isin\<close> and \<^verbatim>\<open>duplicated\<close> take two NaN
  keys for equal.
\<close>

record keyed_row =
  Main_Code :: "string option"
  other_cells :: "string option list"

record validation_tables =
  missing_in_master :: "keyed_row list"
  missing_in_upload :: "keyed_row list"
  duplicates :: "keyed_row list"

definition display_validation :: "'merged \<Rightarrow> keyed_row list \<Rightarrow> keyed_row list \<Rightarrow> validation_tables" where
  "display_validation merged master student =
     \<lparr>missing_in_master = filter (\<lambda>r. Main_Code r \<notin> set (map Main_Code master)) student,
      missing_in_upload = filter (\<lambda>r. Main_Code r \<notin> set (map Main_Code student)) master,
      duplicates = filter (\<lambda>r. 1 < count_list (map Main_Code student) (Main_Code r)) student\<rparr>"

section \<open>Finite cells and evaluated institute types\<close>

text \<open>
  A numeric cell is finite when it is NaN or a finite number. \<open>evaluated_type\<close> holds of the
  master rows whose type is one of the four that lines 176 and 179 test for.
\<close>

definition finite_cell :: "number option \<Rightarrow> bool" where
  "finite_cell x = (case x of None \<Rightarrow> True | Some (Finite q) \<Rightarrow> True | Some _ \<Rightarrow> False)"

definition finite_student :: "student_row \<Rightarrow> bool" where
  "finite_student s =
     (finite_cell (JEE_ADVACED_CRL_RANK s) \<and> finite_cell (JEE_ADVNCED_CATEGORY_RANK s) \<and>
      finite_cell (JEE_MAIN_CRL_RANK s) \<and> finite_cell (JEE_MAIN_CATEGORY_RANK s))"

definition finite_option :: "college_option \<Rightarrow> bool" where
  "finite_option opt = list_all (\<lambda>col. finite_cell (cutoffs opt col)) all_cutoff_cols"

definition evaluated_type :: "college_option \<Rightarrow> bool" where
  "evaluated_type opt =
     (TYPE_cell opt \<in> set [Some ''IIT'', Some ''NIT'', Some ''IIIT'', Some ''GFTI''])"

section \<open>Example tables\<close>

text \<open>
  The scenario of the specification: a student of category SC and gender FEM with the
  advanced-stage category rank 500, and an IIT option with the cutoffs SC_FEM 600,
  SC_GEN 550 and OC_GEN 300. The option also has the cutoff OBC_GEN 100, which this
  student is not eligible for.
\<close>

definition example_columns :: "string list" where
  "example_columns =
     [''COLLEGE_CODE'', ''COURSE_CODE'', ''TYPE'', ''PROGRAM'',
      ''OC_GEN'', ''OBC_GEN'', ''SC_FEM'', ''SC_GEN'', ''Main_Code'']"

definition example_student :: student_row where
  "example_student =
     \<lparr>NAME = Some ''Asha'', STUDENT_ID = Some ''S1'', GENDER = Some ''FEM'',
      CATEGORY = Some ''SC'',
      JEE_ADVACED_CRL_RANK = Some (Finite 9000), JEE_ADVNCED_CATEGORY_RANK = Some (Finite 500),
      JEE_MAIN_CRL_RANK = Some (Finite 20000), JEE_MAIN_CATEGORY_RANK = None\<rparr>"

definition example_option :: college_option where
  "example_option =
     \<lparr>TYPE_cell = Some ''IIT'', COLLEGE_CODE = Some ''101'', COURSE_CODE = Some ''4110'',
      PROGRAM = Some ''CSE'',
      cutoffs = map_of [(''SC_FEM'', Finite 600), (''SC_GEN'', Finite 550),
                        (''OC_GEN'', Finite 300), (''OBC_GEN'', Finite 100)]\<rparr>"

text \<open>
  A student whose mains rank cell holds the text \<^verbatim>\<open>inf\<close>, which \<^verbatim>\<open>pd.to_numeric\<close> reads as
  the float infinity, and a student whose category is written as in the seat matrix of the
  counselling authority, also with such a rank cell. \<open>nit_option\<close> is the example option at
  an NIT.
\<close>

definition infinite_rank_student :: student_row where
  "infinite_rank_student =
     \<lparr>NAME = Some ''Ravi'', STUDENT_ID = Some ''S2'', GENDER = Some ''GEN'',
      CATEGORY = Some ''OC'',
      JEE_ADVACED_CRL_RANK = Some (Finite 1200), JEE_ADVNCED_CATEGORY_RANK = None,
      JEE_MAIN_CRL_RANK = Some PosInf, JEE_MAIN_CATEGORY_RANK = None\<rparr>"

definition unlisted_category_student :: student_row where
  "unlisted_category_student =
     \<lparr>NAME = Some ''Meena'', STUDENT_ID = Some ''S3'', GENDER = Some ''FEM'',
      CATEGORY = Some ''OBC-NCL'',
      JEE_ADVACED_CRL_RANK = Some (Finite 7000), JEE_ADVNCED_CATEGORY_RANK = Some (Finite 900),
      JEE_MAIN_CRL_RANK = Some (Finite 15000), JEE_MAIN_CATEGORY_RANK = Some PosInf\<rparr>"

definition nit_option :: college_option where
  "nit_option = example_option\<lparr>TYPE_cell := Some ''NIT''\<rparr>"

text \<open>
  The two sheets as files hold them, with headers in mixed case and with spaces, and the
  row that the example student and the example option give.
\<close>

definition example_master_sheet :: master_sheet where
  "example_master_sheet =
     \<lparr>master_headers = [''College Code'', ''Course Code'', ''Type'', ''Program'',
                         ''OC GEN'', ''OBC GEN'', ''SC FEM'', ''SC GEN''],
      master_options = [example_option]\<rparr>"

definition example_student_sheet :: student_sheet where
  "example_student_sheet =
     \<lparr>student_headers = [''Name'', ''Student ID'', ''Gender'', ''Category'',
                          ''JEE Advaced CRL Rank'', ''JEE Advnced Category Rank'',
                          ''JEE Main CRL Rank'', ''JEE Main Category Rank''],
      student_rows = [example_student]\<rparr>"

definition example_result_row :: result_row where
  "example_result_row =
     \<lparr>Student_ID = Some ''S1'', Student_Name = Some ''Asha'',
      Student_Category = Some ''SC'', Student_Gender = Some ''FEM'',
      College_Type = Some ''IIT'', College_Code = Some ''101'',
      Program_Name = Some ''CSE'', Course_Code = Some ''4110'',
      Student_Rank_Used = ''500'', Rank_Type = ''JEE Advanced Rank'',
      Best_Eligible_Cutoff = ''300'',
      Considered_Cutoffs_for_Option = ''SC_FEM: 600, SC_GEN: 550, OC_GEN: 300'',
      Seat_Chance = UNLIKELY\<rparr>"

text \<open>
  A master sheet with two rows of the same college and course code, hence of the same
  \<^verbatim>\<open>Main_Code\<close>, and different cutoffs.
\<close>

definition duplicate_key_sheet :: master_sheet where
  "duplicate_key_sheet =
     \<lparr>master_headers = master_headers example_master_sheet,
      master_options =
        [example_option, example_option\<lparr>cutoffs := map_of [(''SC_FEM'', Finite 700)]\<rparr>]\<rparr>"

section \<open>Properties of the numeric helpers and of the resolver\<close>

lemma py_min_Min: "py_min v vs = Min (set (v # vs))"
proof -
  have "(\<lambda>m x. if x < m then x else m) = (\<lambda>m x::number. min x m)"
    by (intro ext) (auto simp: min_def)
  then have "py_min v vs = fold min vs v"
    by (simp add: py_min_def foldl_conv_fold)
  also have "\<dots> = Min (set (v # vs))"
    by (rule Min.set_eq_fold[symmetric])
  finally show ?thesis .
qed

lemma set_option_cutoffs_values:
  "set (option_cutoffs_values cols eligible opt) =
     {v. \<exists>col \<in> set eligible. col \<in> set cols \<and> cutoffs opt col = Some v}"
  by (induction eligible)
    (auto simp: option_cutoffs_values_def List.map_filter_simps split: option.splits)

lemma eligible_subset_cols:
  assumes "set_iteration set_order"
  shows "set (current_student_eligible_cutoff_cols set_order cols category gender) \<subseteq> set cols"
  using assms by (auto simp: current_student_eligible_cutoff_cols_def set_iteration_def Let_def)

lemma set_iteration_remdups: "set_iteration remdups"
  by (simp add: set_iteration_def)

lemma example_eligible:
  "current_student_eligible_cutoff_cols remdups example_columns (Some ''SC'') (Some ''FEM'')
     = [''SC_FEM'', ''SC_GEN'', ''OC_GEN'']"
  by (simp add: current_student_eligible_cutoff_cols_def example_columns_def
      category_to_cutoff_map_def append_if_present_def)

section \<open>The best eligible cutoff\<close>

text \<open>
  Claim C2. For a pair whose applicable rank is present, the best eligible cutoff is the
  minimum of the set \<open>V\<close> of the present cutoffs of the option in the student's eligible
  columns, and it is absent when \<open>V\<close> is empty. An option \<open>opt'\<close> that agrees with \<open>opt\<close> on
  the eligible columns has the same best cutoff, whatever its other columns hold.
\<close>

theorem best_cutoff_is_min_of_eligible:
  assumes "set_iteration set_order"
    and "eligible = current_student_eligible_cutoff_cols set_order cols category gender"
    and "V = {v. \<exists>col \<in> set eligible. cutoffs opt col = Some v}"
  shows "best_eligible_cutoff_for_option cols eligible (Some r) opt =
           (if V = {} then None else Some (Min V))
         \<and> ((\<forall>col \<in> set eligible. cutoffs opt' col = cutoffs opt col) \<longrightarrow>
              best_eligible_cutoff_for_option cols eligible (Some r) opt' =
              best_eligible_cutoff_for_option cols eligible (Some r) opt)"
proof -
  have sub: "set eligible \<subseteq> set cols"
    using assms(1,2) eligible_subset_cols by simp
  have V: "set (option_cutoffs_values cols eligible opt) = V"
    using sub assms(3) by (auto simp: set_option_cutoffs_values)
  have first: "best_eligible_cutoff_for_option cols eligible (Some r) opt =
           (if V = {} then None else Some (Min V))"
  proof (cases "option_cutoffs_values cols eligible opt")
    case Nil
    with V show ?thesis by (simp add: best_eligible_cutoff_for_option_def)
  next
    case (Cons v vs)
    with V have "V = set (v # vs)" by simp
    with Cons show ?thesis
      by (simp add: best_eligible_cutoff_for_option_def py_min_Min)
  qed
  have second: "best_eligible_cutoff_for_option cols eligible (Some r) opt' =
              best_eligible_cutoff_for_option cols eligible (Some r) opt"
    if "\<forall>col \<in> set eligible. cutoffs opt' col = cutoffs opt col"
  proof -
    have "option_cutoffs_values cols eligible opt' = option_cutoffs_values cols eligible opt"
      unfolding option_cutoffs_values_def List.map_filter_def using that
      by (intro arg_cong[where f="map _"] filter_cong map_cong refl) auto
    then show ?thesis by (simp add: best_eligible_cutoff_for_option_def)
  qed
  from first second show ?thesis by blast
qed

theorem best_cutoff_is_min_of_eligible_witness:
  "set_iteration remdups
   \<and> current_student_eligible_cutoff_cols remdups example_columns (Some ''SC'') (Some ''FEM'')
       = [''SC_FEM'', ''SC_GEN'', ''OC_GEN'']
   \<and> best_eligible_cutoff_for_option example_columns [''SC_FEM'', ''SC_GEN'', ''OC_GEN'']
       (Some (Finite 500)) example_option = Some (Finite 300)
   \<and> best_eligible_cutoff_for_option example_columns [''SC_FEM'', ''SC_GEN'', ''OC_GEN'']
       (Some (Finite 500))
       (example_option\<lparr>cutoffs := (cutoffs example_option)(''OBC_GEN'' := Some (Finite 1))\<rparr>)
       = Some (Finite 300)"
proof -
  let ?E = "[''SC_FEM'', ''SC_GEN'', ''OC_GEN'']"
  let ?V = "{v. \<exists>col \<in> set ?E. cutoffs example_option col = Some v}"
  let ?opt' = "example_option\<lparr>cutoffs := (cutoffs example_option)(''OBC_GEN'' := Some (Finite 1))\<rparr>"
  note inst = best_cutoff_is_min_of_eligible[where opt = example_option and r = "Finite 500"
      and opt' = ?opt', OF set_iteration_remdups example_eligible[symmetric] refl]
  have V: "?V = {Finite 600, Finite 550, Finite 300}"
    by (auto simp: example_option_def)
  have same: "\<forall>col \<in> set ?E. cutoffs ?opt' col = cutoffs example_option col"
    by simp
  from inst have best: "best_eligible_cutoff_for_option example_columns ?E (Some (Finite 500))
      example_option = (if ?V = {} then None else Some (Min ?V))"
    by (rule conjunct1)
  from inst same have indep: "best_eligible_cutoff_for_option example_columns ?E
      (Some (Finite 500)) ?opt' =
      best_eligible_cutoff_for_option example_columns ?E (Some (Finite 500)) example_option"
    by blast
  have "best_eligible_cutoff_for_option example_columns ?E (Some (Finite 500)) example_option
      = Some (Finite 300)"
    unfolding best V by simp
  with indep show ?thesis
    by (simp only: set_iteration_remdups example_eligible simp_thms)
qed

lemma evaluate_pair_row:
  assumes "evaluate_pair cols eligible student_row college_option = Inr (Some row)"
  shows "\<exists>rank rank_type_used display rank_text best_text.
      applicable_student_rank student_row college_option = Some (rank, rank_type_used)
    \<and> relevant_cutoffs_for_option_display cols eligible rank college_option = Inr display
    \<and> int_or_na rank = Inr rank_text
    \<and> int_or_na (best_eligible_cutoff_for_option cols eligible rank college_option) = Inr best_text
    \<and> row = \<lparr>Student_ID = STUDENT_ID student_row,
              Student_Name = NAME student_row,
              Student_Category = CATEGORY student_row,
              Student_Gender = GENDER student_row,
              College_Type = TYPE_cell college_option,
              College_Code = COLLEGE_CODE college_option,
              Program_Name =
                (if ''PROGRAM'' \<in> set cols then PROGRAM college_option else Some ''N/A''),
              Course_Code = COURSE_CODE college_option,
              Student_Rank_Used = rank_text,
              Rank_Type = rank_type_used,
              Best_Eligible_Cutoff = best_text,
              Considered_Cutoffs_for_Option = join '', '' display,
              Seat_Chance = seat_chance_of rank
                (best_eligible_cutoff_for_option cols eligible rank college_option)\<rparr>"
  using assms
  by (auto simp: evaluate_pair_def Let_def split: option.splits sum.splits prod.splits)

lemma seat_chance_of_LIKELY:
  "seat_chance_of rank best = LIKELY \<longleftrightarrow> (\<exists>r b. rank = Some r \<and> best = Some b \<and> r \<le> b)"
  by (auto simp: seat_chance_of_def split: option.splits)

lemma seat_chance_of_UNLIKELY:
  "rank = Some r \<Longrightarrow> best = Some b \<Longrightarrow> b < r \<Longrightarrow> seat_chance_of rank best = UNLIKELY"
  by (auto simp: seat_chance_of_def)

lemma options_loop_rows:
  assumes "options_loop cols eligible s opts results_list = Inr rows"
  shows "set rows \<subseteq> set results_list
           \<union> {row. \<exists>opt \<in> set opts. evaluate_pair cols eligible s opt = Inr (Some row)}"
  using assms
proof (induction opts arbitrary: results_list)
  case Nil
  then show ?case by simp
next
  case (Cons opt rest)
  show ?case
  proof (cases "evaluate_pair cols eligible s opt")
    case (Inl e)
    with Cons.prems show ?thesis by simp
  next
    case (Inr r)
    show ?thesis
    proof (cases r)
      case None
      with Inr Cons.prems have "options_loop cols eligible s rest results_list = Inr rows"
        by simp
      from Cons.IH[OF this] show ?thesis by auto
    next
      case (Some row)
      with Inr Cons.prems
      have "options_loop cols eligible s rest (results_list @ [row]) = Inr rows"
        by simp
      from Cons.IH[OF this] Inr Some show ?thesis by auto
    qed
  qed
qed

lemma students_loop_rows:
  assumes "students_loop set_order m ss results_list = Inr rows"
  shows "set rows \<subseteq> set results_list
           \<union> {row. \<exists>s \<in> set ss. \<exists>opt \<in> set (options m).
                 evaluate_pair (columns m)
                   (current_student_eligible_cutoff_cols set_order (columns m)
                      (CATEGORY s) (GENDER s)) s opt = Inr (Some row)}"
  using assms
proof (induction ss arbitrary: results_list)
  case Nil
  then show ?case by simp
next
  case (Cons s rest)
  let ?E = "current_student_eligible_cutoff_cols set_order (columns m) (CATEGORY s) (GENDER s)"
  show ?case
  proof (cases "options_loop (columns m) ?E s (options m) results_list")
    case (Inl e)
    with Cons.prems show ?thesis by (simp add: Let_def)
  next
    case (Inr results_list')
    with Cons.prems have "students_loop set_order m rest results_list' = Inr rows"
      by (simp add: Let_def)
    from Cons.IH[OF this] options_loop_rows[OF Inr] show ?thesis
      by auto
  qed
qed

lemma run_rows_from_pairs:
  assumes "run_seat_chance_analysis set_order m ss = Inr rows"
    and "row \<in> set rows"
  shows "\<exists>s \<in> set ss. \<exists>opt \<in> set (options m).
           evaluate_pair (columns m)
             (current_student_eligible_cutoff_cols set_order (columns m)
                (CATEGORY s) (GENDER s)) s opt = Inr (Some row)"
  using students_loop_rows[of set_order m ss "[]" rows] assms
  by (auto simp: run_seat_chance_analysis_def)

section \<open>The verdict\<close>

text \<open>
  Claim C1. Every row of a batch comes from one pair (\<open>run_rows_from_pairs\<close>). For
  every pair for which the engine appends a row, the verdict of the row is
  LIKELY exactly when the applicable rank is present, the best eligible cutoff is present
  and the rank is at most the cutoff. A rank equal to the cutoff gives LIKELY, a rank
  strictly greater than the cutoff gives UNLIKELY.
\<close>

theorem verdict_likely_iff:
  assumes "evaluate_pair cols eligible student_row college_option = Inr (Some row)"
    and "applicable_student_rank student_row college_option = Some (rank, rank_type_used)"
    and "best = best_eligible_cutoff_for_option cols eligible rank college_option"
  shows "(Seat_Chance row = LIKELY \<longleftrightarrow> (\<exists>r b. rank = Some r \<and> best = Some b \<and> r \<le> b))
       \<and> (\<forall>r. rank = Some r \<and> best = Some r \<longrightarrow> Seat_Chance row = LIKELY)
       \<and> (\<forall>r b. rank = Some r \<and> best = Some b \<and> b < r \<longrightarrow> Seat_Chance row = UNLIKELY)"
proof -
  from evaluate_pair_row[OF assms(1)] assms(2,3)
  have verdict: "Seat_Chance row = seat_chance_of rank best"
    by auto
  show ?thesis
    unfolding verdict
    by (auto simp: seat_chance_of_LIKELY seat_chance_of_UNLIKELY)
qed

theorem verdict_likely_iff_witness:
  "evaluate_pair example_columns [''SC_FEM'', ''SC_GEN'', ''OC_GEN''] example_student
     (example_option\<lparr>cutoffs := map_of [(''SC_FEM'', Finite 500)]\<rparr>)
   = Inr (Some \<lparr>Student_ID = Some ''S1'', Student_Name = Some ''Asha'',
                 Student_Category = Some ''SC'', Student_Gender = Some ''FEM'',
                 College_Type = Some ''IIT'', College_Code = Some ''101'',
                 Program_Name = Some ''CSE'', Course_Code = Some ''4110'',
                 Student_Rank_Used = ''500'', Rank_Type = ''JEE Advanced Rank'',
                 Best_Eligible_Cutoff = ''500'',
                 Considered_Cutoffs_for_Option = ''SC_FEM: 500'',
                 Seat_Chance = LIKELY\<rparr>)"
proof -
  let ?E = "[''SC_FEM'', ''SC_GEN'', ''OC_GEN'']"
  let ?opt = "example_option\<lparr>cutoffs := map_of [(''SC_FEM'', Finite 500)]\<rparr>"
  let ?row = "\<lparr>Student_ID = Some ''S1'', Student_Name = Some ''Asha'',
                 Student_Category = Some ''SC'', Student_Gender = Some ''FEM'',
                 College_Type = Some ''IIT'', College_Code = Some ''101'',
                 Program_Name = Some ''CSE'', Course_Code = Some ''4110'',
                 Student_Rank_Used = ''500'', Rank_Type = ''JEE Advanced Rank'',
                 Best_Eligible_Cutoff = ''500'',
                 Considered_Cutoffs_for_Option = ''SC_FEM: 500'',
                 Seat_Chance = seat_chance_of (Some (Finite 500)) (Some (Finite 500))\<rparr>"
  have rank: "applicable_student_rank example_student ?opt
      = Some (Some (Finite 500), ''JEE Advanced Rank'')"
    by (simp add: applicable_student_rank_def current_student_adv_rank_def example_student_def
        example_option_def)
  have best: "Some (Finite 500)
      = best_eligible_cutoff_for_option example_columns ?E (Some (Finite 500)) ?opt"
    by (simp add: best_eligible_cutoff_for_option_def option_cutoffs_values_def
        List.map_filter_simps example_columns_def py_min_def)
  have d: "digits 500 = ''500''"
    by code_simp
  have row: "evaluate_pair example_columns ?E example_student ?opt = Inr (Some ?row)"
    by code_simp
  from verdict_likely_iff[OF row rank best]
  have "Seat_Chance ?row = LIKELY"
    by blast
  then have "seat_chance_of (Some (Finite 500)) (Some (Finite 500)) = LIKELY"
    by simp
  with row show ?thesis
    by simp
qed

lemma eligible_unknown_category:
  assumes "set_iteration set_order"
    and "category \<notin> Some ` set [''OC'', ''EWS'', ''OBC'', ''SC'', ''ST'']"
  shows "current_student_eligible_cutoff_cols set_order cols category gender = []"
proof -
  have "set (set_order []) = set []"
    using assms(1) unfolding set_iteration_def by blast
  then have empty: "set_order [] = []"
    by simp
  show ?thesis
    using assms(2)
    by (cases category)
      (auto simp: current_student_eligible_cutoff_cols_def category_to_cutoff_map_def empty)
qed

section \<open>The resolver's policy\<close>

text \<open>
  Claim C3. The categories of a student record are OC, EWS, OBC, SC and ST. For the
  category OC the resolver returns a duplicate-free list whose labels are among OC_GEN and
  OC_FEM, so it holds no column of another category. For each of the other four categories
  and the gender FEM the list contains OC_GEN whenever the master sheet has that column.
  In every case the list is duplicate-free and holds only columns of the master sheet: a
  column that the sheet lacks is left out.
\<close>

theorem resolver_policy:
  assumes "set_iteration set_order"
  shows "distinct (current_student_eligible_cutoff_cols set_order cols (Some ''OC'') gender)
       \<and> set (current_student_eligible_cutoff_cols set_order cols (Some ''OC'') gender)
           \<subseteq> {''OC_GEN'', ''OC_FEM''}
       \<and> (category \<in> set [''OC'', ''EWS'', ''OBC'', ''SC'', ''ST''] \<and> category \<noteq> ''OC''
            \<and> ''OC_GEN'' \<in> set cols \<longrightarrow>
           ''OC_GEN'' \<in> set (current_student_eligible_cutoff_cols set_order cols
                               (Some category) (Some ''FEM'')))
       \<and> distinct (current_student_eligible_cutoff_cols set_order cols (Some category) gender)
       \<and> set (current_student_eligible_cutoff_cols set_order cols (Some category) gender)
           \<subseteq> set cols"
proof -
  have it: "distinct (set_order xs)" "set (set_order xs) = set xs" for xs
    using assms by (simp_all add: set_iteration_def)
  have dist: "distinct (current_student_eligible_cutoff_cols set_order cols c gender)" for c
    by (simp add: current_student_eligible_cutoff_cols_def it Let_def)
  have oc: "set (current_student_eligible_cutoff_cols set_order cols (Some ''OC'') gender)
           \<subseteq> {''OC_GEN'', ''OC_FEM''}"
    by (auto simp: current_student_eligible_cutoff_cols_def category_to_cutoff_map_def
        append_if_present_def it Let_def split: if_splits)
  have fem: "''OC_GEN'' \<in> set (current_student_eligible_cutoff_cols set_order cols
                               (Some category) (Some ''FEM''))"
    if "category \<in> set [''OC'', ''EWS'', ''OBC'', ''SC'', ''ST'']" "category \<noteq> ''OC''"
      "''OC_GEN'' \<in> set cols"
  proof -
    from that(1,2) have "category \<in> set [''EWS'', ''OBC'', ''SC'', ''ST'']"
      by simp
    with that(3) show ?thesis
      by (auto simp: current_student_eligible_cutoff_cols_def category_to_cutoff_map_def
          append_if_present_def it Let_def)
  qed
  have sub: "set (current_student_eligible_cutoff_cols set_order cols (Some category) gender)
           \<subseteq> set cols"
    using assms by (rule eligible_subset_cols)
  from dist oc fem sub show ?thesis
    by blast
qed

theorem resolver_policy_witness:
  "set_iteration remdups
   \<and> ''SC'' \<in> set [''OC'', ''EWS'', ''OBC'', ''SC'', ''ST''] \<and> ''SC'' \<noteq> ''OC''
   \<and> ''OC_GEN'' \<in> set example_columns
   \<and> ''OC_GEN'' \<in> set (current_student_eligible_cutoff_cols remdups example_columns
                          (Some ''SC'') (Some ''FEM''))
   \<and> current_student_eligible_cutoff_cols remdups example_columns (Some ''SC'') (Some ''FEM'')
       = [''SC_FEM'', ''SC_GEN'', ''OC_GEN'']
   \<and> current_student_eligible_cutoff_cols remdups all_cutoff_cols (Some ''OC'') (Some ''FEM'')
       = [''OC_FEM'', ''OC_GEN'']"
proof -
  note inst = resolver_policy[OF set_iteration_remdups, where cols = example_columns
      and category = "''SC''"]
  have sc: "''SC'' \<in> set [''OC'', ''EWS'', ''OBC'', ''SC'', ''ST''] \<and> ''SC'' \<noteq> ''OC''
      \<and> ''OC_GEN'' \<in> set example_columns"
    by (simp add: example_columns_def)
  from inst sc
  have a: "''OC_GEN'' \<in> set (current_student_eligible_cutoff_cols remdups example_columns
                          (Some ''SC'') (Some ''FEM''))"
    by blast
  have c: "current_student_eligible_cutoff_cols remdups all_cutoff_cols (Some ''OC'') (Some ''FEM'')
       = [''OC_FEM'', ''OC_GEN'']"
    by code_simp
  from a c sc show ?thesis
    by (simp only: set_iteration_remdups example_eligible simp_thms)
qed

section \<open>The batch on finite cells\<close>

text \<open>
  When every rank cell and every cutoff cell is NaN or finite, no \<^verbatim>\<open>int()\<close> raises: each
  pair of an evaluated type appends exactly one row and every other pair appends none, so
  a batch of N students against M master rows of an evaluated type ends with N times M
  rows.
\<close>

lemma py_int_error: "py_int v = Inl e \<Longrightarrow> e = OverflowError"
  by (auto simp: py_int_def split: number.splits)

lemma py_int_finite: "finite_cell (Some v) \<Longrightarrow> \<exists>i. py_int v = Inr i"
  by (auto simp: py_int_def finite_cell_def split: number.splits)

lemma int_or_na_finite: "finite_cell x \<Longrightarrow> \<exists>t. int_or_na x = Inr t"
  by (cases x) (auto simp: int_or_na_def dest: py_int_finite)

lemma display_entries_finite:
  "\<forall>col \<in> set eligible. finite_cell (cutoffs opt col) \<Longrightarrow>
   \<exists>entries. display_entries cols eligible opt = Inr entries"
proof (induction eligible)
  case Nil
  then show ?case by simp
next
  case (Cons col rest)
  then obtain entries where rest: "display_entries cols rest opt = Inr entries"
    by auto
  show ?case
  proof (cases "cutoffs opt col")
    case None
    with rest show ?thesis by simp
  next
    case (Some v)
    with Cons.prems have "finite_cell (Some v)" by simp
    then obtain i where "py_int v = Inr i"
      using py_int_finite by blast
    with Some rest show ?thesis by simp
  qed
qed

lemma append_if_present_labels:
  "set acc \<subseteq> L \<Longrightarrow> set_option label \<subseteq> L \<Longrightarrow> set (append_if_present cols label acc) \<subseteq> L"
  by (auto simp: append_if_present_def split: option.splits)

lemma category_map_labels:
  assumes "map_of category_to_cutoff_map c = Some category_map"
  shows "set_option (map_of category_map k) \<subseteq> set all_cutoff_cols"
proof -
  from assms have "(c, category_map) \<in> set category_to_cutoff_map"
    by (rule map_of_SomeD)
  then have "snd ` set category_map \<subseteq> set all_cutoff_cols"
    unfolding category_to_cutoff_map_def all_cutoff_cols_def by auto
  moreover have "set_option (map_of category_map k) \<subseteq> snd ` set category_map"
    by (auto dest: map_of_SomeD intro: rev_image_eqI)
  ultimately show ?thesis by blast
qed

lemma set_if_subset:
  "(b \<Longrightarrow> set x \<subseteq> L) \<Longrightarrow> (\<not> b \<Longrightarrow> set y \<subseteq> L) \<Longrightarrow> set (if b then x else y) \<subseteq> L"
  by simp

lemma set_case_option_subset:
  "(x = None \<Longrightarrow> set a \<subseteq> L) \<Longrightarrow> (\<And>y. x = Some y \<Longrightarrow> set (f y) \<subseteq> L) \<Longrightarrow>
   set (case x of None \<Rightarrow> a | Some y \<Rightarrow> f y) \<subseteq> L"
  by (cases x) simp_all

lemma eligible_subset_labels:
  assumes "set_iteration set_order"
  shows "set (current_student_eligible_cutoff_cols set_order cols category gender)
           \<subseteq> set all_cutoff_cols"
proof -
  have it: "set (set_order xs) = set xs" for xs
    using assms by (simp add: set_iteration_def)
  have oc: "set_option (Some ''OC_GEN'') \<subseteq> set all_cutoff_cols"
    "set_option (Some ''OC_FEM'') \<subseteq> set all_cutoff_cols"
    by (simp_all add: all_cutoff_cols_def)
  have nil: "set [] \<subseteq> set all_cutoff_cols"
    by simp
  have "set (filter (\<lambda>col. col \<in> set cols) xs) \<subseteq> set all_cutoff_cols"
    if "set xs \<subseteq> set all_cutoff_cols" for xs
    using that by auto
  have flt: "set (filter (\<lambda>col. col \<in> set cols) xs) \<subseteq> set all_cutoff_cols"
    if "set xs \<subseteq> set all_cutoff_cols" for xs
    using that by auto
  show ?thesis
    unfolding current_student_eligible_cutoff_cols_def Let_def it
    apply (rule flt)
    apply (intro set_case_option_subset set_if_subset append_if_present_labels
        category_map_labels oc nil; assumption)
    done
qed

lemma best_eligible_cutoff_finite:
  assumes "\<forall>col \<in> set eligible. finite_cell (cutoffs opt col)"
  shows "finite_cell (best_eligible_cutoff_for_option cols eligible rank opt)"
proof (cases rank)
  case None
  then show ?thesis
    by (simp add: best_eligible_cutoff_for_option_def finite_cell_def)
next
  case (Some r)
  show ?thesis
  proof (cases "option_cutoffs_values cols eligible opt")
    case Nil
    with Some show ?thesis
      by (simp add: best_eligible_cutoff_for_option_def finite_cell_def)
  next
    case (Cons v vs)
    have "Min (set (v # vs)) \<in> set (v # vs)"
      by (rule Min_in) simp_all
    then have "py_min v vs \<in> set (option_cutoffs_values cols eligible opt)"
      by (simp only: py_min_Min Cons)
    then obtain col where "col \<in> set eligible" "cutoffs opt col = Some (py_min v vs)"
      by (auto simp: set_option_cutoffs_values)
    with assms have "finite_cell (Some (py_min v vs))"
      by metis
    with Some Cons show ?thesis
      by (simp add: best_eligible_cutoff_for_option_def)
  qed
qed

lemma applicable_rank_finite:
  assumes "finite_student s"
    and "applicable_student_rank s opt = Some (rank, rank_type_used)"
  shows "finite_cell rank"
  using assms
  by (auto simp: applicable_student_rank_def finite_student_def current_student_adv_rank_def
      current_student_mains_rank_def split: if_splits)

lemma applicable_rank_evaluated:
  "applicable_student_rank s opt \<noteq> None \<longleftrightarrow> evaluated_type opt"
  by (auto simp: applicable_student_rank_def evaluated_type_def)

lemma evaluate_pair_finite:
  assumes "finite_student s"
    and "\<forall>col \<in> set eligible. finite_cell (cutoffs opt col)"
  shows "if evaluated_type opt then \<exists>row. evaluate_pair cols eligible s opt = Inr (Some row)
         else evaluate_pair cols eligible s opt = Inr None"
proof (cases "applicable_student_rank s opt")
  case None
  then show ?thesis
    using applicable_rank_evaluated[of s opt] by (simp add: evaluate_pair_def)
next
  case (Some p)
  obtain rank rank_type_used where p: "p = (rank, rank_type_used)"
    by (cases p)
  from Some have ev: "evaluated_type opt"
    using applicable_rank_evaluated[of s opt] by simp
  from display_entries_finite[OF assms(2), of cols]
  obtain entries where "display_entries cols eligible opt = Inr entries"
    by blast
  then have "\<exists>display. relevant_cutoffs_for_option_display cols eligible rank opt = Inr display"
    by (simp add: relevant_cutoffs_for_option_display_def split: option.splits list.splits)
  then obtain display where
    d: "relevant_cutoffs_for_option_display cols eligible rank opt = Inr display"
    by blast
  obtain rank_text where r: "int_or_na rank = Inr rank_text"
    using int_or_na_finite applicable_rank_finite[OF assms(1)] Some p by blast
  obtain best_text where
    b: "int_or_na (best_eligible_cutoff_for_option cols eligible rank opt) = Inr best_text"
    using int_or_na_finite best_eligible_cutoff_finite[OF assms(2)] by blast
  from Some p d r b ev show ?thesis
    by (simp add: evaluate_pair_def)
qed

lemma options_loop_finite:
  assumes "finite_student s"
    and "\<forall>opt \<in> set opts. \<forall>col \<in> set eligible. finite_cell (cutoffs opt col)"
  shows "\<exists>rows. options_loop cols eligible s opts results_list = Inr (results_list @ rows)
           \<and> length rows = length (filter evaluated_type opts)"
  using assms(2)
proof (induction opts arbitrary: results_list)
  case Nil
  then show ?case by simp
next
  case (Cons opt rest)
  from Cons.prems have fin: "\<forall>col \<in> set eligible. finite_cell (cutoffs opt col)"
    by simp
  show ?case
  proof (cases "evaluated_type opt")
    case True
    with evaluate_pair_finite[OF assms(1) fin, of cols]
    obtain row where row: "evaluate_pair cols eligible s opt = Inr (Some row)"
      by auto
    from Cons.IH[of "results_list @ [row]"] Cons.prems
    obtain rows where "options_loop cols eligible s rest (results_list @ [row])
        = Inr ((results_list @ [row]) @ rows)"
      "length rows = length (filter evaluated_type rest)"
      by auto
    with row True show ?thesis
      by (intro exI[of _ "row # rows"]) simp
  next
    case False
    with evaluate_pair_finite[OF assms(1) fin, of cols]
    have "evaluate_pair cols eligible s opt = Inr None"
      by simp
    with Cons.IH[of results_list] Cons.prems False show ?thesis
      by auto
  qed
qed

lemma students_loop_finite:
  assumes "set_iteration set_order"
    and "list_all finite_option (options m)"
    and "list_all finite_student ss"
  shows "\<exists>rows. students_loop set_order m ss results_list = Inr (results_list @ rows)
           \<and> length rows = length ss * length (filter evaluated_type (options m))"
  using assms(3)
proof (induction ss arbitrary: results_list)
  case Nil
  then show ?case by simp
next
  case (Cons s rest)
  let ?E = "current_student_eligible_cutoff_cols set_order (columns m) (CATEGORY s) (GENDER s)"
  have fin: "\<forall>opt \<in> set (options m). \<forall>col \<in> set ?E. finite_cell (cutoffs opt col)"
    using assms(2) eligible_subset_labels[OF assms(1), of "columns m" "CATEGORY s" "GENDER s"]
    by (auto simp: finite_option_def list_all_iff)
  from Cons.prems have s: "finite_student s" and rest: "list_all finite_student rest"
    by simp_all
  from options_loop_finite[OF s fin, of "columns m" results_list]
  obtain rows where rows: "options_loop (columns m) ?E s (options m) results_list
      = Inr (results_list @ rows)" "length rows = length (filter evaluated_type (options m))"
    by auto
  from Cons.IH[OF rest, of "results_list @ rows"]
  obtain rows' where rows': "students_loop set_order m rest (results_list @ rows)
      = Inr ((results_list @ rows) @ rows')"
    "length rows' = length rest * length (filter evaluated_type (options m))"
    by auto
  from rows rows' show ?case
    by (intro exI[of _ "rows @ rows'"]) (simp add: Let_def)
qed

lemma batch_row_count:
  assumes "set_iteration set_order"
    and "list_all finite_option (options m)"
    and "list_all finite_student ss"
  shows "\<exists>rows. run_seat_chance_analysis set_order m ss = Inr rows
           \<and> length rows = length ss * length (filter evaluated_type (options m))"
  using students_loop_finite[OF assms, of "[]"]
  by (simp add: run_seat_chance_analysis_def)

lemma rank_missing_row:
  assumes "applicable_student_rank s opt = Some (None, rank_type_used)"
  shows "\<exists>row. evaluate_pair cols eligible s opt = Inr (Some row)
           \<and> Seat_Chance row = RANK_MISSING \<and> Best_Eligible_Cutoff row = ''N/A''
           \<and> Student_Rank_Used row = ''N/A''"
  using assms
  by (simp add: evaluate_pair_def best_eligible_cutoff_for_option_def
      relevant_cutoffs_for_option_display_def int_or_na_def seat_chance_of_def)

section \<open>Infinite cells\<close>

text \<open>
  Claim C5 says that no pair raises and that a malformed row never prevents the evaluation
  of the remaining rows. On finite cells this holds (\<open>evaluate_pair_finite\<close>). A rank cell
  with the text \<^verbatim>\<open>inf\<close> is a number after the coercion and passes \<^verbatim>\<open>pd.notna\<close>; line 219 then
  calls \<^verbatim>\<open>int()\<close> on it, which raises \<^verbatim>\<open>OverflowError\<close> outside any \<^verbatim>\<open>try\<close>. The batch ends
  there: the second, well-formed student is never evaluated, although alone that student
  gives a row.
\<close>

theorem infinite_rank_aborts_batch:
  "run_seat_chance_analysis remdups \<lparr>columns = example_columns, options = [nit_option]\<rparr>
     [infinite_rank_student, example_student] = Inl OverflowError
   \<and> run_seat_chance_analysis remdups \<lparr>columns = example_columns, options = [nit_option]\<rparr>
     [example_student]
     = Inr [example_result_row\<lparr>College_Type := Some ''NIT'', Student_Rank_Used := ''N/A'',
              Rank_Type := ''JEE Mains Rank'', Best_Eligible_Cutoff := ''N/A'',
              Considered_Cutoffs_for_Option := [], Seat_Chance := RANK_MISSING\<rparr>]"
  by code_simp

text \<open>
  Claim C4 says that N students and M master rows of an evaluated type give N times M
  rows. On finite cells this holds (\<open>batch_row_count\<close>), rows with a missing rank included
  (\<open>rank_missing_row\<close>). With one student whose applicable rank is infinite and one NIT
  row, N times M is 1 and the run raises instead of returning a row.
\<close>

theorem infinite_rank_no_rows:
  "length [infinite_rank_student] * length (filter evaluated_type [nit_option]) = 1
   \<and> (\<forall>rows. run_seat_chance_analysis remdups
          \<lparr>columns = example_columns, options = [nit_option]\<rparr> [infinite_rank_student]
        \<noteq> Inr rows)"
proof -
  have "run_seat_chance_analysis remdups
          \<lparr>columns = example_columns, options = [nit_option]\<rparr> [infinite_rank_student]
        = Inl OverflowError"
    by code_simp
  moreover have "length [infinite_rank_student] * length (filter evaluated_type [nit_option]) = 1"
    by code_simp
  ultimately show ?thesis
    by simp
qed

text \<open>
  Claim C10 says that a student whose category is none of the five keys gets an empty list
  of eligible columns (\<open>eligible_unknown_category\<close>) and that no error is raised for such a
  student. The list is empty, but a present applicable rank that is infinite still raises
  at line 219.
\<close>

theorem unlisted_category_infinite_rank_raises:
  "current_student_eligible_cutoff_cols remdups example_columns
     (CATEGORY unlisted_category_student) (GENDER unlisted_category_student) = []
   \<and> applicable_student_rank unlisted_category_student nit_option
       = Some (Some PosInf, ''JEE Mains Rank'')
   \<and> evaluate_pair example_columns [] unlisted_category_student nit_option = Inl OverflowError"
  by code_simp

section \<open>Header normalisation across the workflows\<close>

lemma header_normalisation_three_agree:
  "verify_choice_filling_dashboard_columns headers = multi_student_analyzer_columns headers
   \<and> smart_insights_columns headers = multi_student_analyzer_columns headers"
  by (simp add: verify_choice_filling_dashboard_columns_def smart_insights_columns_def
      multi_student_analyzer_columns_def)

text \<open>
  Claim C6 says that every workflow normalises the master headers in the same way. The
  batch analyser, the dashboard verifier and the smart insights page do. The choice
  verifier of \<^verbatim>\<open>verify_choice_filling.py\<close> leaves the inner spaces, and then reads the
  columns \<^verbatim>\<open>COLLEGE CODE\<close> and \<^verbatim>\<open>COURSE CODE\<close>.
\<close>

theorem header_normalisation_differs:
  "multi_student_analyzer_columns [''College Code'', ''Course Code'', ''OC GEN'']
     = [''COLLEGE_CODE'', ''COURSE_CODE'', ''OC_GEN'']
   \<and> verify_choice_filling_columns [''College Code'', ''Course Code'', ''OC GEN'']
     = [''COLLEGE CODE'', ''COURSE CODE'', ''OC GEN'']"
  by code_simp

section \<open>Failed runs and the stored results\<close>




section \<open>Duplicate join keys in the master sheet\<close>

lemma evaluate_pair_skipped:
  "evaluate_pair cols eligible s opt = Inr None \<Longrightarrow> \<not> evaluated_type opt"
  using applicable_rank_evaluated[of s opt]
  by (auto simp: evaluate_pair_def Let_def split: option.splits sum.splits prod.splits)

lemma evaluate_pair_codes:
  assumes "evaluate_pair cols eligible s opt = Inr (Some row)"
  shows "evaluated_type opt \<and> College_Code row = COLLEGE_CODE opt
         \<and> Course_Code row = COURSE_CODE opt"
proof -
  from evaluate_pair_row[OF assms] obtain rank rank_type_used where
    "applicable_student_rank s opt = Some (rank, rank_type_used)"
    "College_Code row = COLLEGE_CODE opt" "Course_Code row = COURSE_CODE opt"
    by auto
  then show ?thesis
    using applicable_rank_evaluated[of s opt] by simp
qed

lemma options_loop_codes:
  assumes "options_loop cols eligible s opts results_list = Inr rows"
  shows "map (\<lambda>row. (College_Code row, Course_Code row)) rows
         = map (\<lambda>row. (College_Code row, Course_Code row)) results_list
           @ map (\<lambda>opt. (COLLEGE_CODE opt, COURSE_CODE opt)) (filter evaluated_type opts)"
  using assms
proof (induction opts arbitrary: results_list)
  case Nil
  then show ?case by simp
next
  case (Cons opt rest)
  show ?case
  proof (cases "evaluate_pair cols eligible s opt")
    case (Inl e)
    with Cons.prems show ?thesis by simp
  next
    case (Inr r)
    show ?thesis
    proof (cases r)
      case None
      with Inr Cons.prems have "options_loop cols eligible s rest results_list = Inr rows"
        by simp
      from Cons.IH[OF this] evaluate_pair_skipped[of cols eligible s opt] Inr None
      show ?thesis by simp
    next
      case (Some row)
      with Inr Cons.prems
      have "options_loop cols eligible s rest (results_list @ [row]) = Inr rows"
        by simp
      from Cons.IH[OF this] evaluate_pair_codes[of cols eligible s opt row] Inr Some
      show ?thesis by simp
    qed
  qed
qed

lemma students_loop_codes:
  assumes "students_loop set_order m ss results_list = Inr rows"
  shows "map (\<lambda>row. (College_Code row, Course_Code row)) rows
         = map (\<lambda>row. (College_Code row, Course_Code row)) results_list
           @ concat (map (\<lambda>s. map (\<lambda>opt. (COLLEGE_CODE opt, COURSE_CODE opt))
                                  (filter evaluated_type (options m))) ss)"
  using assms
proof (induction ss arbitrary: results_list)
  case Nil
  then show ?case by simp
next
  case (Cons s rest)
  let ?E = "current_student_eligible_cutoff_cols set_order (columns m) (CATEGORY s) (GENDER s)"
  show ?case
  proof (cases "options_loop (columns m) ?E s (options m) results_list")
    case (Inl e)
    with Cons.prems show ?thesis by (simp add: Let_def)
  next
    case (Inr results_list')
    with Cons.prems have "students_loop set_order m rest results_list' = Inr rows"
      by (simp add: Let_def)
    from Cons.IH[OF this] options_loop_codes[OF Inr] show ?thesis
      by simp
  qed
qed

text \<open>
  Claim C9, as amended. No workflow looks for duplicate join keys among the master rows.
  The table of duplicates on the validation tab is computed from the student sheet alone:
  it is the same for any two master sheets. The batch analyser does not choose among
  master rows: the result rows list the college and course codes of every master row of an
  evaluated type, once per student and in the order of the sheet, so rows with the same
  key each give a result row.
\<close>

theorem duplicate_master_keys_not_flagged:
  "duplicates (display_validation merged master student)
     = duplicates (display_validation merged' master' student)
   \<and> (run_seat_chance_analysis set_order m ss = Inr rows \<longrightarrow>
        map (\<lambda>row. (College_Code row, Course_Code row)) rows
        = concat (map (\<lambda>s. map (\<lambda>opt. (COLLEGE_CODE opt, COURSE_CODE opt))
                               (filter evaluated_type (options m))) ss))"
  using students_loop_codes[of set_order m ss "[]" rows]
  by (simp add: display_validation_def run_seat_chance_analysis_def)

theorem duplicate_master_keys_not_flagged_witness:
  "run_seat_chance_analysis remdups (processed_master_df duplicate_key_sheet) [example_student]
     = Inr [example_result_row,
            example_result_row\<lparr>Best_Eligible_Cutoff := ''700'',
              Considered_Cutoffs_for_Option := ''SC_FEM: 700'', Seat_Chance := LIKELY\<rparr>]
   \<and> map (\<lambda>row. (College_Code row, Course_Code row))
         [example_result_row,
          example_result_row\<lparr>Best_Eligible_Cutoff := ''700'',
            Considered_Cutoffs_for_Option := ''SC_FEM: 700'', Seat_Chance := LIKELY\<rparr>]
     = [(Some ''101'', Some ''4110''), (Some ''101'', Some ''4110'')]
   \<and> duplicates (display_validation ()
         [\<lparr>Main_Code = Some ''101_4110'', other_cells = []\<rparr>,
          \<lparr>Main_Code = Some ''101_4110'', other_cells = []\<rparr>]
         [\<lparr>Main_Code = Some ''101_4110'', other_cells = []\<rparr>])
     = duplicates (display_validation () []
         [\<lparr>Main_Code = Some ''101_4110'', other_cells = []\<rparr>])"
proof -
  let ?rows = "[example_result_row,
            example_result_row\<lparr>Best_Eligible_Cutoff := ''700'',
              Considered_Cutoffs_for_Option := ''SC_FEM: 700'', Seat_Chance := LIKELY\<rparr>]"
  let ?k = "\<lparr>Main_Code = Some ''101_4110'', other_cells = []\<rparr>"
  note inst = duplicate_master_keys_not_flagged[where set_order = remdups
      and m = "processed_master_df duplicate_key_sheet" and ss = "[example_student]"
      and rows = ?rows and merged = "()" and merged' = "()" and master = "[?k, ?k]"
      and master' = "[]" and student = "[?k]"]
  have run: "run_seat_chance_analysis remdups (processed_master_df duplicate_key_sheet)
      [example_student] = Inr ?rows"
    by code_simp
  have codes: "concat (map (\<lambda>s. map (\<lambda>opt. (COLLEGE_CODE opt, COURSE_CODE opt))
      (filter evaluated_type (options (processed_master_df duplicate_key_sheet))))
      [example_student]) = [(Some ''101'', Some ''4110''), (Some ''101'', Some ''4110'')]"
    by code_simp
  from inst run have "map (\<lambda>row. (College_Code row, Course_Code row)) ?rows
      = concat (map (\<lambda>s. map (\<lambda>opt. (COLLEGE_CODE opt, COURSE_CODE opt))
      (filter evaluated_type (options (processed_master_df duplicate_key_sheet))))
      [example_student])"
    by blast
  with codes have a: "map (\<lambda>row. (College_Code row, Course_Code row)) ?rows
      = [(Some ''101'', Some ''4110''), (Some ''101'', Some ''4110'')]"
    by simp
  from inst have b: "duplicates (display_validation () [?k, ?k] [?k])
      = duplicates (display_validation () [] [?k])"
    by blast
  from run a b show ?thesis
    by blast
qed

text \<open>
  The claim as stated fails: for a master sheet with two rows of the key 101_4110, the
  batch analyser reports the load and shows two result rows with opposite verdicts for the
  same key, and the validation tab finds no duplicate and nothing missing.
\<close>

theorem duplicate_master_keys_counterexample:
  "map Main_Code_of (master_options duplicate_key_sheet)
     = [Some ''101_4110'', Some ''101_4110'']
   \<and> display_multi_student_analyzer remdups
       \<lparr>master_exists = True, master_load = Loaded duplicate_key_sheet,
        student_batch_file = Some (Loaded example_student_sheet), run_button = True\<rparr> Missing
     = \<lparr>messages = [Success_loaded 1 2,
          Results_shown [example_result_row,
            example_result_row\<lparr>Best_Eligible_Cutoff := ''700'',
              Considered_Cutoffs_for_Option := ''SC_FEM: 700'', Seat_Chance := LIKELY\<rparr>]],
        session = Stored [example_result_row,
            example_result_row\<lparr>Best_Eligible_Cutoff := ''700'',
              Considered_Cutoffs_for_Option := ''SC_FEM: 700'', Seat_Chance := LIKELY\<rparr>],
        raised = None\<rparr>
   \<and> display_validation ()
       [\<lparr>Main_Code = Some ''101_4110'', other_cells = []\<rparr>,
        \<lparr>Main_Code = Some ''101_4110'', other_cells = []\<rparr>]
       [\<lparr>Main_Code = Some ''101_4110'', other_cells = []\<rparr>]
     = \<lparr>missing_in_master = [], missing_in_upload = [], duplicates = []\<rparr>"
  by code_simp

section \<open>Running the batch again\<close>

lemma eligible_set_order:
  assumes "set_iteration set_order" and "set_iteration set_order'"
  shows "set (current_student_eligible_cutoff_cols set_order cols category gender)
       = set (current_student_eligible_cutoff_cols set_order' cols category gender)"
  using assms
  by (simp add: current_student_eligible_cutoff_cols_def set_iteration_def Let_def)

lemma eligible_distinct:
  assumes "set_iteration set_order"
  shows "distinct (current_student_eligible_cutoff_cols set_order cols category gender)"
  using assms
  by (simp add: current_student_eligible_cutoff_cols_def set_iteration_def Let_def)

lemma option_cutoffs_values_set_cong:
  "set eligible = set eligible' \<Longrightarrow>
   set (option_cutoffs_values cols eligible opt) = set (option_cutoffs_values cols eligible' opt)"
  by (simp add: set_option_cutoffs_values)

lemma best_eligible_cutoff_set_cong:
  assumes "set eligible = set eligible'"
  shows "best_eligible_cutoff_for_option cols eligible rank opt
       = best_eligible_cutoff_for_option cols eligible' rank opt"
proof -
  have "set (option_cutoffs_values cols eligible opt)
      = set (option_cutoffs_values cols eligible' opt)"
    using assms by (rule option_cutoffs_values_set_cong)
  then show ?thesis
    by (cases "option_cutoffs_values cols eligible opt";
        cases "option_cutoffs_values cols eligible' opt")
      (auto simp: best_eligible_cutoff_for_option_def py_min_Min split: option.splits)
qed

lemma display_entries_Inl:
  "display_entries cols eligible opt = Inl e \<longleftrightarrow>
     e = OverflowError
     \<and> (\<exists>col \<in> set eligible. col \<in> set cols
          \<and> (\<exists>v. cutoffs opt col = Some v \<and> py_int v = Inl OverflowError))"
proof (induction eligible)
  case Nil
  then show ?case by simp
next
  case (Cons col rest)
  show ?case
  proof (cases "col \<in> set cols")
    case False
    with Cons show ?thesis by auto
  next
    case True
    show ?thesis
    proof (cases "cutoffs opt col")
      case None
      with True Cons show ?thesis by auto
    next
      case (Some v)
      show ?thesis
      proof (cases "py_int v")
        case (Inl e')
        then have "e' = OverflowError" by (rule py_int_error)
        with Inl Some True show ?thesis by auto
      next
        case (Inr i)
        with Some True Cons show ?thesis
          by (auto split: sum.splits)
      qed
    qed
  qed
qed

lemma relevant_display_Inl:
  "relevant_cutoffs_for_option_display cols eligible rank opt = Inl e \<longleftrightarrow>
     e = OverflowError \<and> rank \<noteq> None
     \<and> (\<exists>col \<in> set eligible. col \<in> set cols
          \<and> (\<exists>v. cutoffs opt col = Some v \<and> py_int v = Inl OverflowError))"
proof (cases rank)
  case None
  then show ?thesis
    by (simp add: relevant_cutoffs_for_option_display_def)
next
  case (Some r)
  show ?thesis
  proof (cases "option_cutoffs_values cols eligible opt")
    case Nil
    then have "set (option_cutoffs_values cols eligible opt) = {}"
      by simp
    then have "\<not> (\<exists>col \<in> set eligible. col \<in> set cols \<and> (\<exists>v. cutoffs opt col = Some v))"
      unfolding set_option_cutoffs_values by blast
    with Some Nil show ?thesis
      by (auto simp: relevant_cutoffs_for_option_display_def)
  next
    case (Cons v vs)
    with Some show ?thesis
      by (simp add: relevant_cutoffs_for_option_display_def display_entries_Inl)
  qed
qed

lemma relevant_display_set_cong:
  assumes "set eligible = set eligible'"
  shows "relevant_cutoffs_for_option_display cols eligible rank opt = Inl e \<longleftrightarrow>
         relevant_cutoffs_for_option_display cols eligible' rank opt = Inl e"
  by (simp add: relevant_display_Inl assms)

lemma evaluate_pair_set_cong:
  assumes "set eligible = set eligible'"
  shows "map_sum id (map_option audit_erased) (evaluate_pair cols eligible s opt)
       = map_sum id (map_option audit_erased) (evaluate_pair cols eligible' s opt)"
proof (cases "applicable_student_rank s opt")
  case None
  then show ?thesis by (simp add: evaluate_pair_def)
next
  case (Some p)
  obtain rank rank_type_used where p: "p = (rank, rank_type_used)"
    by (cases p)
  note best = best_eligible_cutoff_set_cong[OF assms, of cols rank opt]
  note disp = relevant_display_set_cong[OF assms, of cols rank opt]
  show ?thesis
  proof (cases "relevant_cutoffs_for_option_display cols eligible rank opt")
    case (Inl e)
    moreover from Inl disp
    have "relevant_cutoffs_for_option_display cols eligible' rank opt = Inl e"
      by simp
    ultimately show ?thesis
      using Some p by (simp add: evaluate_pair_def)
  next
    case (Inr display)
    with disp obtain display' where
      "relevant_cutoffs_for_option_display cols eligible' rank opt = Inr display'"
      by (cases "relevant_cutoffs_for_option_display cols eligible' rank opt") auto
    with Inr Some p best show ?thesis
      by (simp add: evaluate_pair_def audit_erased_def Let_def split: sum.splits)
  qed
qed

lemma options_loop_set_cong:
  assumes "set eligible = set eligible'"
    and "map audit_erased results_list = map audit_erased results_list'"
  shows "map_sum id (map audit_erased) (options_loop cols eligible s opts results_list)
       = map_sum id (map audit_erased) (options_loop cols eligible' s opts results_list')"
  using assms(2)
proof (induction opts arbitrary: results_list results_list')
  case Nil
  then show ?case by simp
next
  case (Cons opt rest)
  note pair = evaluate_pair_set_cong[OF assms(1), of cols s opt]
  show ?case
  proof (cases "evaluate_pair cols eligible s opt")
    case (Inl e)
    with pair have "evaluate_pair cols eligible' s opt = Inl e"
      by (cases "evaluate_pair cols eligible' s opt") auto
    with Inl show ?thesis by simp
  next
    case (Inr r)
    with pair obtain r' where r': "evaluate_pair cols eligible' s opt = Inr r'"
      "map_option audit_erased r = map_option audit_erased r'"
      by (cases "evaluate_pair cols eligible' s opt") auto
    show ?thesis
    proof (cases r)
      case None
      with r' have "r' = None" by simp
      with None Inr r' Cons.IH[OF Cons.prems] show ?thesis by simp
    next
      case (Some row)
      with r' obtain row' where row': "r' = Some row'" "audit_erased row = audit_erased row'"
        by (cases r') auto
      with Cons.prems
      have "map audit_erased (results_list @ [row]) = map audit_erased (results_list' @ [row'])"
        by simp
      from Cons.IH[OF this] Some Inr r' row' show ?thesis by simp
    qed
  qed
qed

lemma students_loop_order:
  assumes "set_iteration set_order" and "set_iteration set_order'"
    and "map audit_erased results_list = map audit_erased results_list'"
  shows "map_sum id (map audit_erased) (students_loop set_order m ss results_list)
       = map_sum id (map audit_erased) (students_loop set_order' m ss results_list')"
  using assms(3)
proof (induction ss arbitrary: results_list results_list')
  case Nil
  then show ?case by simp
next
  case (Cons s rest)
  let ?E = "current_student_eligible_cutoff_cols set_order (columns m) (CATEGORY s) (GENDER s)"
  let ?E' = "current_student_eligible_cutoff_cols set_order' (columns m) (CATEGORY s) (GENDER s)"
  have "set ?E = set ?E'"
    using assms(1,2) by (rule eligible_set_order)
  note loop = options_loop_set_cong[OF this Cons.prems, of "columns m" s "options m"]
  show ?case
  proof (cases "options_loop (columns m) ?E s (options m) results_list")
    case (Inl e)
    with loop have "options_loop (columns m) ?E' s (options m) results_list' = Inl e"
      by (cases "options_loop (columns m) ?E' s (options m) results_list'") auto
    with Inl show ?thesis by (simp add: Let_def)
  next
    case (Inr rows)
    with loop obtain rows' where
      rows': "options_loop (columns m) ?E' s (options m) results_list' = Inr rows'"
      "map audit_erased rows = map audit_erased rows'"
      by (cases "options_loop (columns m) ?E' s (options m) results_list'") auto
    from Cons.IH[OF rows'(2)] Inr rows'(1) show ?thesis
      by (simp add: Let_def)
  qed
qed

lemma display_entries_Inr:
  "display_entries cols eligible opt = Inr entries \<Longrightarrow>
   entries = List.map_filter
     (\<lambda>col. if col \<in> set cols then
              (case cutoffs opt col of
                 None \<Rightarrow> None
               | Some v \<Rightarrow> (case py_int v of Inl e \<Rightarrow> None
                           | Inr i \<Rightarrow> Some (col @ '': '' @ str_int i)))
            else None) eligible"
proof (induction eligible arbitrary: entries)
  case Nil
  then show ?case by (simp add: List.map_filter_simps)
next
  case (Cons col rest)
  then show ?case
    by (auto simp: List.map_filter_simps split: if_splits option.splits sum.splits)
qed

lemma mset_map_filter_cong:
  "mset xs = mset ys \<Longrightarrow> mset (List.map_filter f xs) = mset (List.map_filter f ys)"
proof -
  assume eq: "mset xs = mset ys"
  have "mset (List.map_filter f zs)
      = image_mset (the \<circ> f) (filter_mset (\<lambda>x. f x \<noteq> None) (mset zs))" for zs
    by (simp add: List.map_filter_def)
  then show ?thesis
    by (simp only: eq)
qed

lemma relevant_display_mset:
  assumes "mset eligible = mset eligible'"
    and "relevant_cutoffs_for_option_display cols eligible rank opt = Inr display"
    and "relevant_cutoffs_for_option_display cols eligible' rank opt = Inr display'"
  shows "mset display = mset display'"
proof -
  from assms(1) have sets: "set eligible = set eligible'"
    by (rule mset_eq_setD)
  show ?thesis
  proof (cases "rank = None \<or> option_cutoffs_values cols eligible opt = []")
    case True
    moreover have "option_cutoffs_values cols eligible opt = [] \<longleftrightarrow>
        option_cutoffs_values cols eligible' opt = []"
      using option_cutoffs_values_set_cong[OF sets, of cols opt]
      by (metis set_empty)
    ultimately show ?thesis
      using assms(2,3)
      by (auto simp: relevant_cutoffs_for_option_display_def split: option.splits list.splits)
  next
    case False
    moreover have "option_cutoffs_values cols eligible opt = [] \<longleftrightarrow>
        option_cutoffs_values cols eligible' opt = []"
      using option_cutoffs_values_set_cong[OF sets, of cols opt]
      by (metis set_empty)
    ultimately have entries: "display_entries cols eligible opt = Inr display"
      "display_entries cols eligible' opt = Inr display'"
      using assms(2,3)
      by (auto simp: relevant_cutoffs_for_option_display_def split: option.splits list.splits)
    show ?thesis
      unfolding display_entries_Inr[OF entries(1)] display_entries_Inr[OF entries(2)]
      using assms(1) by (rule mset_map_filter_cong)
  qed
qed

lemma set_iteration_rev_remdups: "set_iteration (\<lambda>xs. rev (remdups xs))"
  by (simp add: set_iteration_def)

text \<open>
  Claim C7, as amended. The run is a function of the two sheets and of the order in which
  Python iterates over a set of strings; that order is fixed within one interpreter
  process, so a second run there gives the same sequence. For any two such orders the runs
  raise alike or return alike: the same rows in the same order, equal in every field
  except the audit text, and the entries of the audit list of a pair are the same up to
  their order.
\<close>

theorem rerun_agrees_up_to_audit_order:
  assumes "set_iteration set_order" and "set_iteration set_order'"
  shows "map_sum id (map audit_erased) (run_seat_chance_analysis set_order m ss)
       = map_sum id (map audit_erased) (run_seat_chance_analysis set_order' m ss)
     \<and> (relevant_cutoffs_for_option_display cols
           (current_student_eligible_cutoff_cols set_order cols category gender) rank opt
           = Inr display
         \<and> relevant_cutoffs_for_option_display cols
           (current_student_eligible_cutoff_cols set_order' cols category gender) rank opt
           = Inr display'
         \<longrightarrow> mset display = mset display')"
proof -
  let ?E = "current_student_eligible_cutoff_cols set_order cols category gender"
  let ?E' = "current_student_eligible_cutoff_cols set_order' cols category gender"
  have "set ?E = set ?E'"
    using assms by (rule eligible_set_order)
  moreover have "distinct ?E" "distinct ?E'"
    using assms by (simp_all add: eligible_distinct)
  ultimately have "mset ?E = mset ?E'"
    by (simp add: set_eq_iff_mset_eq_distinct)
  then have entries: "mset display = mset display'"
    if "relevant_cutoffs_for_option_display cols ?E rank opt = Inr display"
      "relevant_cutoffs_for_option_display cols ?E' rank opt = Inr display'"
    using that by (rule relevant_display_mset)
  have "map_sum id (map audit_erased) (students_loop set_order m ss [])
      = map_sum id (map audit_erased) (students_loop set_order' m ss [])"
    using assms by (rule students_loop_order) simp
  with entries show ?thesis
    by (simp add: run_seat_chance_analysis_def)
qed

theorem rerun_agrees_up_to_audit_order_witness:
  "set_iteration remdups \<and> set_iteration (\<lambda>xs. rev (remdups xs))
   \<and> map_sum id (map audit_erased)
       (run_seat_chance_analysis (\<lambda>xs. rev (remdups xs))
          (processed_master_df example_master_sheet) [example_student])
     = Inr [audit_erased example_result_row]
   \<and> mset [''OC_GEN: 300'', ''SC_GEN: 550'', ''SC_FEM: 600'']
     = mset [''SC_FEM: 600'', ''SC_GEN: 550'', ''OC_GEN: 300'']"
proof -
  note inst = rerun_agrees_up_to_audit_order[OF set_iteration_remdups set_iteration_rev_remdups,
      where m = "processed_master_df example_master_sheet" and ss = "[example_student]"
      and cols = example_columns and category = "Some ''SC''" and gender = "Some ''FEM''"
      and rank = "Some (Finite 500)" and opt = example_option
      and display = "[''SC_FEM: 600'', ''SC_GEN: 550'', ''OC_GEN: 300'']"
      and display' = "[''OC_GEN: 300'', ''SC_GEN: 550'', ''SC_FEM: 600'']"]
  have run: "run_seat_chance_analysis remdups (processed_master_df example_master_sheet)
      [example_student] = Inr [example_result_row]"
    by code_simp
  have d: "relevant_cutoffs_for_option_display example_columns
      (current_student_eligible_cutoff_cols remdups example_columns (Some ''SC'') (Some ''FEM''))
      (Some (Finite 500)) example_option
      = Inr [''SC_FEM: 600'', ''SC_GEN: 550'', ''OC_GEN: 300'']"
    by code_simp
  have d': "relevant_cutoffs_for_option_display example_columns
      (current_student_eligible_cutoff_cols (\<lambda>xs. rev (remdups xs)) example_columns
         (Some ''SC'') (Some ''FEM''))
      (Some (Finite 500)) example_option
      = Inr [''OC_GEN: 300'', ''SC_GEN: 550'', ''SC_FEM: 600'']"
    by code_simp
  from inst d d' have a: "mset [''OC_GEN: 300'', ''SC_GEN: 550'', ''SC_FEM: 600'']
     = mset [''SC_FEM: 600'', ''SC_GEN: 550'', ''OC_GEN: 300'']"
    by metis
  from inst have "map_sum id (map audit_erased)
       (run_seat_chance_analysis remdups (processed_master_df example_master_sheet)
          [example_student])
     = map_sum id (map audit_erased)
       (run_seat_chance_analysis (\<lambda>xs. rev (remdups xs))
          (processed_master_df example_master_sheet) [example_student])"
    by (rule conjunct1)
  then have b: "map_sum id (map audit_erased)
       (run_seat_chance_analysis (\<lambda>xs. rev (remdups xs))
          (processed_master_df example_master_sheet) [example_student])
     = Inr [audit_erased example_result_row]"
    unfolding run by simp
  from a b show ?thesis
    by (simp only: set_iteration_remdups set_iteration_rev_remdups simp_thms)
qed

text \<open>
  The claim as stated fails: line 165 passes the eligible columns through \<^verbatim>\<open>list(set(...))\<close>,
  and under two iteration orders of that set the same sheets give two audit texts.
\<close>

theorem rerun_audit_order_counterexample:
  "set_iteration remdups \<and> set_iteration (\<lambda>xs. rev (remdups xs))
   \<and> run_seat_chance_analysis remdups (processed_master_df example_master_sheet)
       [example_student]
     = Inr [example_result_row]
   \<and> run_seat_chance_analysis (\<lambda>xs. rev (remdups xs))
       (processed_master_df example_master_sheet) [example_student]
     = Inr [example_result_row
              \<lparr>Considered_Cutoffs_for_Option := ''OC_GEN: 300, SC_GEN: 550, SC_FEM: 600''\<rparr>]"
proof -
  have "run_seat_chance_analysis remdups (processed_master_df example_master_sheet)
       [example_student] = Inr [example_result_row]"
    by code_simp
  moreover have "run_seat_chance_analysis (\<lambda>xs. rev (remdups xs))
       (processed_master_df example_master_sheet) [example_student]
     = Inr [example_result_row
              \<lparr>Considered_Cutoffs_for_Option := ''OC_GEN: 300, SC_GEN: 550, SC_FEM: 600''\<rparr>]"
    by code_simp
  ultimately show ?thesis
    by (simp only: set_iteration_remdups set_iteration_rev_remdups simp_thms)
qed

end
